theory Spec2Isabelle
  imports Complex_Main
begin

section \<open>Python values, strings and exceptions\<close>

text \<open>
  A \<open>string\<close> stands for a Python \<open>str\<close> whose code points are below 256, one \<open>char\<close>
  per code point. Exceptions are values of \<open>error\<close>; a function that can raise returns
  \<open>error + 'a\<close> with \<open>Inl\<close> for the exception.
\<close>

datatype error =
    RuntimeError string
  | HTTPException int string
  | AttributeError string
  | TypeError string
  | JSONDecodeError string
  | TransportError string
  | IndexError string
  | RequestValidationError string

definition cp :: "char \<Rightarrow> nat" where
  "cp c = of_char c"

definition NL :: char where
  "NL = CHR 0x0A"

section \<open>Name Validator (\<open>validate_db_name\<close>, api/index.py)\<close>

text \<open>
  The pieces of a regular expression that the pattern of \<open>validate_db_name\<close> uses, and
  a backtracking matcher for them with the meaning Python's \<open>re\<close> gives each piece
  when no flag is set: \<open>^\<close> matches at position 0, \<open>$\<close> matches at the end of the string
  and also just before a newline that is the last character, a class matches one
  character, and a starred class is greedy with backtracking. \<open>re_match\<close> is
  \<open>pattern.match\<close>: it matches at the start of the string and does not require the
  match to reach the end.
\<close>

datatype re_item = Bol | Eol | Cls "char \<Rightarrow> bool" | StarCls "char \<Rightarrow> bool"

fun re_here :: "re_item list \<Rightarrow> nat \<Rightarrow> string \<Rightarrow> bool" where
  "re_here [] pos s = True"
| "re_here (Bol # r) pos s = (pos = 0 \<and> re_here r pos s)"
| "re_here (Eol # r) pos s = ((s = [] \<or> s = [NL]) \<and> re_here r pos s)"
| "re_here (Cls c # r) pos [] = False"
| "re_here (Cls c # r) pos (x # t) = (c x \<and> re_here r (Suc pos) t)"
| "re_here (StarCls c # r) pos [] = re_here r pos []"
| "re_here (StarCls c # r) pos (x # t) =
     ((c x \<and> re_here (StarCls c # r) (Suc pos) t) \<or> re_here r pos (x # t))"

definition re_match :: "re_item list \<Rightarrow> string \<Rightarrow> bool" where
  "re_match p s = re_here p 0 s"

definition is_lower :: "char \<Rightarrow> bool" where
  "is_lower c = (97 \<le> cp c \<and> cp c \<le> 122)"

definition is_digit :: "char \<Rightarrow> bool" where
  "is_digit c = (48 \<le> cp c \<and> cp c \<le> 57)"

definition is_name_char :: "char \<Rightarrow> bool" where
  "is_name_char c = (is_lower c \<or> is_digit c \<or> c \<in> set ''_$()+-/'')"

text \<open>The pattern \<^verbatim>\<open>^[a-z][a-z0-9_\$\(\)\+\-\/]*$\<close>.\<close>

definition db_name_pattern :: "re_item list" where
  "db_name_pattern = [Bol, Cls is_lower, StarCls is_name_char, Eol]"

text \<open>
  \<open>db_name\<close> is typed \<open>str\<close>, so the \<open>isinstance\<close> test never fails in the model; the
  empty string takes the first \<open>raise\<close>.
\<close>

definition validate_db_name :: "string \<Rightarrow> error + unit" where
  "validate_db_name db_name =
     (if db_name = [] then
        Inl (RuntimeError ''COUCHDB_DB (or NEXT_PUBLIC_DB_NAME) is empty or invalid'')
      else if \<not> re_match db_name_pattern db_name then
        Inl (RuntimeError
          ''Invalid CouchDB database name. Use lowercase a-z, 0-9, and _$()+-/'')
      else Inr ())"

text \<open>
  The grammar as the specification words it: one lowercase ASCII letter followed by zero
  or more characters from \<open>a-z\<close>, \<open>0-9\<close>, \<open>_ $ ( ) + - /\<close>.
\<close>

fun db_name_grammar :: "string \<Rightarrow> bool" where
  "db_name_grammar [] = False"
| "db_name_grammar (c # cs) = (is_lower c \<and> list_all is_name_char cs)"

section \<open>Percent-encoding (\<open>urllib.parse.quote\<close> with \<open>safe=''\<close>)\<close>

text \<open>
  \<open>quote\<close> keeps ASCII letters, digits and \<open>_ . - ~\<close>; every other code point is
  encoded to UTF-8 and each byte is written as \<open>%\<close> and two upper-case hexadecimal
  digits. A code point from 128 to 255 has two UTF-8 bytes.
\<close>

definition is_upper :: "char \<Rightarrow> bool" where
  "is_upper c = (65 \<le> cp c \<and> cp c \<le> 90)"

definition always_safe :: "char \<Rightarrow> bool" where
  "always_safe c = (is_lower c \<or> is_upper c \<or> is_digit c \<or> c \<in> set ''_.-~'')"

definition hex_digit :: "nat \<Rightarrow> char" where
  "hex_digit n = ''0123456789ABCDEF'' ! (n mod 16)"

definition pct_byte :: "nat \<Rightarrow> string" where
  "pct_byte b = [CHR ''%'', hex_digit (b div 16), hex_digit b]"

definition quote_char :: "char \<Rightarrow> string" where
  "quote_char c =
     (if always_safe c then [c]
      else if cp c < 128 then pct_byte (cp c)
      else pct_byte (192 + cp c div 64) @ pct_byte (128 + cp c mod 64))"

definition quote :: "string \<Rightarrow> string" where
  "quote s = concat (map quote_char s)"

section \<open>Text helpers: \<open>str.strip\<close>, \<open>str(int)\<close>, \<open>isoformat\<close>\<close>

text \<open>
  \<open>is_space\<close> is the whitespace that \<open>str.strip()\<close> removes, for code points below
  256: tab to carriage return, the separators 28 to 31, space, and the Latin-1 code
  points 133 and 160.
\<close>

definition is_space :: "char \<Rightarrow> bool" where
  "is_space c = (cp c \<in> {9, 10, 11, 12, 13, 28, 29, 30, 31, 32, 133, 160})"

definition lstrip :: "(char \<Rightarrow> bool) \<Rightarrow> string \<Rightarrow> string" where
  "lstrip P s = dropWhile P s"

definition rstrip :: "(char \<Rightarrow> bool) \<Rightarrow> string \<Rightarrow> string" where
  "rstrip P s = rev (dropWhile P (rev s))"

definition strip :: "(char \<Rightarrow> bool) \<Rightarrow> string \<Rightarrow> string" where
  "strip P s = rstrip P (lstrip P s)"

definition digit_char :: "nat \<Rightarrow> char" where
  "digit_char d = ''0123456789'' ! (d mod 10)"

fun str_nat :: "nat \<Rightarrow> string" where
  "str_nat n = (if n < 10 then [digit_char n] else str_nat (n div 10) @ [digit_char n])"

declare str_nat.simps [simp del]

definition str_int :: "int \<Rightarrow> string" where
  "str_int i = (if i < 0 then CHR ''-'' # str_nat (nat (- i)) else str_nat (nat i))"

definition zpad :: "nat \<Rightarrow> nat \<Rightarrow> string" where
  "zpad w n = replicate (w - length (str_nat n)) CHR ''0'' @ str_nat n"

record datetime =
  year :: nat
  month :: nat
  day :: nat
  hour :: nat
  minute :: nat
  second :: nat
  microsecond :: nat

text \<open>\<open>datetime.isoformat(timespec="milliseconds")\<close> of a naive datetime.\<close>

definition isoformat_ms :: "datetime \<Rightarrow> string" where
  "isoformat_ms t =
     zpad 4 (year t) @ ''-'' @ zpad 2 (month t) @ ''-'' @ zpad 2 (day t) @ ''T'' @
     zpad 2 (hour t) @ '':'' @ zpad 2 (minute t) @ '':'' @ zpad 2 (second t) @ ''.'' @
     zpad 3 (microsecond t div 1000)"

section \<open>Config Resolver (\<open>get_couch_config\<close>, api/index.py)\<close>

text \<open>
  \<open>environ\<close> is \<open>os.getenv\<close>: \<open>None\<close> for an unset variable. \<open>getenv_or v rest\<close> is
  the Python expression \<open>v or rest\<close> for \<open>v\<close> of type \<open>Optional[str]\<close>: \<open>None\<close> and the
  empty string are falsy.
\<close>

type_synonym environ = "string \<Rightarrow> string option"

definition getenv_or :: "string option \<Rightarrow> string \<Rightarrow> string" where
  "getenv_or v rest = (case v of None \<Rightarrow> rest | Some s \<Rightarrow> if s = [] then rest else s)"

record couch_config =
  base_url :: string
  db :: string

text \<open>
  \<open>str(e)\<close> of an exception: the message the exception was raised with, which every
  constructor carries. For \<open>HTTPException\<close> it is Starlette's
  \<open>"{status_code}: {detail}"\<close>. A rejected request body is answered by the framework
  and reaches no \<open>except\<close> clause of the program.
\<close>

fun exc_str :: "error \<Rightarrow> string" where
  "exc_str (RuntimeError m) = m"
| "exc_str (HTTPException sc d) = str_int sc @ '': '' @ d"
| "exc_str (AttributeError m) = m"
| "exc_str (TypeError m) = m"
| "exc_str (RequestValidationError m) = m"
| "exc_str (JSONDecodeError m) = m"
| "exc_str (TransportError m) = m"
| "exc_str (IndexError m) = m"

definition couch_url_of :: "environ \<Rightarrow> string" where
  "couch_url_of env =
     strip (\<lambda>c. c = CHR 0x27)
       (strip (\<lambda>c. c = CHR 0x22)
         (strip is_space
           (getenv_or (env ''COUCHDB_URL'')
             (getenv_or (env ''NEXT_PUBLIC_COUCHDB_URL'') []))))"

definition db_name_of :: "environ \<Rightarrow> string" where
  "db_name_of env =
     strip is_space
       (getenv_or (env ''COUCHDB_DB'') (getenv_or (env ''NEXT_PUBLIC_DB_NAME'') ''fintech''))"

text \<open>The body of the \<open>try\<close> block, then the \<open>except Exception\<close> clause around it.\<close>

definition get_couch_config_body :: "environ \<Rightarrow> error + couch_config" where
  "get_couch_config_body env =
     (let couch_url = couch_url_of env; db_name = db_name_of env
      in if couch_url = [] then Inl (RuntimeError ''COUCHDB_URL missing in environment'')
         else Inr \<lparr>base_url = rstrip (\<lambda>c. c = CHR ''/'') couch_url, db = db_name\<rparr>)"

definition get_couch_config :: "environ \<Rightarrow> error + couch_config" where
  "get_couch_config env =
     (case get_couch_config_body env of
        Inl e \<Rightarrow> Inl (HTTPException 500 (''Config error: '' @ exc_str e))
      | Inr cfg \<Rightarrow> Inr cfg)"

text \<open>
  The specification's wording of the choice: the first non-empty of the recognised
  variables, in order, else the default.
\<close>

fun first_non_empty :: "string option list \<Rightarrow> string \<Rightarrow> string" where
  "first_non_empty [] dflt = dflt"
| "first_non_empty (None # vs) dflt = first_non_empty vs dflt"
| "first_non_empty (Some s # vs) dflt = (if s \<noteq> [] then s else first_non_empty vs dflt)"

section \<open>ID Generator (\<open>generate_short_id\<close>, api/index.py)\<close>

text \<open>
  The random source is the sequence of numbers that \<open>secrets.choice\<close> draws:
  \<open>rnd k\<close> is the index drawn by the \<open>k\<close>-th call. \<open>secrets.choice(seq)\<close> is
  \<open>seq[randbelow(len(seq))]\<close>, so a real source only draws indices below \<open>len(seq)\<close>;
  an index out of range is the \<open>IndexError\<close> of the subscript.
\<close>

definition alphabet :: string where
  "alphabet = ''23456789ABCDEFGHJKLMNPQRSTUVWXYZabcdefghjkmnpqrstuvwxyz''"

definition choice :: "string \<Rightarrow> nat \<Rightarrow> error + char" where
  "choice seq r =
     (if r < length seq then Inr (seq ! r) else Inl (IndexError ''string index out of range''))"

text \<open>Evaluating a sequence of expressions from left to right; the first exception ends it.\<close>

fun sequence :: "(error + 'a) list \<Rightarrow> error + 'a list" where
  "sequence [] = Inr []"
| "sequence (Inl e # xs) = Inl e"
| "sequence (Inr v # xs) = (case sequence xs of Inl e \<Rightarrow> Inl e | Inr vs \<Rightarrow> Inr (v # vs))"

definition generate_short_id :: "(nat \<Rightarrow> nat) \<Rightarrow> int \<Rightarrow> error + string" where
  "generate_short_id rnd length_arg =
     sequence (map (\<lambda>k. choice alphabet (rnd k)) [0 ..< nat length_arg])"

section \<open>Python data and the request models (models/expense.py)\<close>

text \<open>
  \<open>pyval\<close> holds the Python values the handlers compute with: what \<open>json\<close> parsing
  yields (\<open>None\<close>, booleans, integers, floats, strings, lists, and dicts in insertion
  order whose first binding of a key is the effective one) and an \<open>EntryMeta\<close> model
  instance. A float is carried as the real number it denotes; the values a float can
  take that are not numbers are outside the model.
\<close>

record EntryMeta =
  voiceText :: "string option"
  asrConfidence :: "real option"
  lang :: "string option"

datatype pyval =
    PNone
  | PBool bool
  | PInt int
  | PFloat real
  | PStr string
  | PList "pyval list"
  | PDict "(string \<times> pyval) list"
  | PModel EntryMeta

record EntryCreate =
  entryType :: string
  category :: string
  amount :: real
  currency :: string
  paymentMethod :: string
  notes_field :: "string option"
  recordedBy :: string
  deviceId :: "string option"
  meta :: "EntryMeta option"

definition ebind :: "error + 'a \<Rightarrow> ('a \<Rightarrow> error + 'b) \<Rightarrow> error + 'b" where
  "ebind m f = (case m of Inl e \<Rightarrow> Inl e | Inr v \<Rightarrow> f v)"

definition type_name :: "pyval \<Rightarrow> string" where
  "type_name v =
     (case v of PNone \<Rightarrow> ''NoneType'' | PBool _ \<Rightarrow> ''bool'' | PInt _ \<Rightarrow> ''int''
      | PFloat _ \<Rightarrow> ''float'' | PStr _ \<Rightarrow> ''str'' | PList _ \<Rightarrow> ''list''
      | PDict _ \<Rightarrow> ''dict'' | PModel _ \<Rightarrow> ''EntryMeta'')"

definition no_attribute :: "string \<Rightarrow> string \<Rightarrow> error" where
  "no_attribute ty name =
     AttributeError ([CHR 0x27] @ ty @ [CHR 0x27] @ '' object has no attribute '' @
                     [CHR 0x27] @ name @ [CHR 0x27])"

text \<open>Truthiness, and the expression \<open>a or b\<close>.\<close>

definition truthy :: "pyval \<Rightarrow> bool" where
  "truthy v =
     (case v of PNone \<Rightarrow> False | PBool b \<Rightarrow> b | PInt i \<Rightarrow> i \<noteq> 0 | PFloat r \<Rightarrow> r \<noteq> 0
      | PStr s \<Rightarrow> s \<noteq> [] | PList xs \<Rightarrow> xs \<noteq> [] | PDict kvs \<Rightarrow> kvs \<noteq> []
      | PModel _ \<Rightarrow> True)"

definition py_or :: "pyval \<Rightarrow> pyval \<Rightarrow> pyval" where
  "py_or a b = (if truthy a then a else b)"

definition opt_str :: "string option \<Rightarrow> pyval" where
  "opt_str v = (case v of None \<Rightarrow> PNone | Some s \<Rightarrow> PStr s)"

definition opt_float :: "real option \<Rightarrow> pyval" where
  "opt_float v = (case v of None \<Rightarrow> PNone | Some r \<Rightarrow> PFloat r)"

text \<open>
  Attribute access on an \<open>EntryCreate\<close> instance. The class declares nine fields; the
  model configuration is pydantic's default, under which keys of the request body that
  are not declared are dropped at validation, and reading a name that is not a field
  raises \<open>AttributeError\<close>.
\<close>

definition EntryCreate_getattr :: "EntryCreate \<Rightarrow> string \<Rightarrow> error + pyval" where
  "EntryCreate_getattr payload name =
     (if name = ''entryType'' then Inr (PStr (entryType payload))
      else if name = ''category'' then Inr (PStr (category payload))
      else if name = ''amount'' then Inr (PFloat (amount payload))
      else if name = ''currency'' then Inr (PStr (currency payload))
      else if name = ''paymentMethod'' then Inr (PStr (paymentMethod payload))
      else if name = ''notes'' then Inr (opt_str (notes_field payload))
      else if name = ''recordedBy'' then Inr (PStr (recordedBy payload))
      else if name = ''deviceId'' then Inr (opt_str (deviceId payload))
      else if name = ''meta'' then
        Inr (case meta payload of None \<Rightarrow> PNone | Some m \<Rightarrow> PModel m)
      else Inl (no_attribute ''EntryCreate'' name))"

text \<open>\<open>v.model_dump()\<close>: defined on a model instance only.\<close>

definition model_dump :: "pyval \<Rightarrow> error + pyval" where
  "model_dump v =
     (case v of
        PModel m \<Rightarrow>
          Inr (PDict [(''voiceText'', opt_str (voiceText m)),
                      (''asrConfidence'', opt_float (asrConfidence m)),
                      (''lang'', opt_str (lang m))])
      | _ \<Rightarrow> Inl (no_attribute (type_name v) ''model_dump''))"

subsection \<open>Validation of a request body against \<open>EntryCreate\<close>\<close>

text \<open>
  The body is the parsed JSON of the request. A field is read from the dict under its
  name; a key that names no field is never read. A rejected body is answered by the
  framework with status 422 and the handler is not called; the model returns
  \<open>RequestValidationError\<close> with the first field found invalid.

  How an input becomes a \<open>float\<close> is pydantic's own code, not the repository's: which
  inputs it takes (numbers, and in its lax mode more than numbers), which it refuses,
  and the float it makes of each. It is a parameter of the validation,
  \<open>to_float\<close>, which gives the float for an input it takes and \<open>None\<close> for one it
  refuses; the statements about validation hold for every such function.
\<close>

type_synonym float_validator = "pyval \<Rightarrow> real option"

definition invalid :: "string \<Rightarrow> error + 'a" where
  "invalid field = Inl (RequestValidationError field)"

definition req_literal :: "(string \<times> pyval) list \<Rightarrow> string \<Rightarrow> string list \<Rightarrow> error + string" where
  "req_literal kvs k allowed =
     (case map_of kvs k of
        Some (PStr s) \<Rightarrow> if s \<in> set allowed then Inr s else invalid k
      | _ \<Rightarrow> invalid k)"

definition opt_literal ::
  "(string \<times> pyval) list \<Rightarrow> string \<Rightarrow> string list \<Rightarrow> string \<Rightarrow> error + string" where
  "opt_literal kvs k allowed dflt =
     (case map_of kvs k of
        None \<Rightarrow> Inr dflt
      | Some (PStr s) \<Rightarrow> if s \<in> set allowed then Inr s else invalid k
      | Some _ \<Rightarrow> invalid k)"

definition req_str :: "(string \<times> pyval) list \<Rightarrow> string \<Rightarrow> error + string" where
  "req_str kvs k = (case map_of kvs k of Some (PStr s) \<Rightarrow> Inr s | _ \<Rightarrow> invalid k)"

definition req_float ::
  "float_validator \<Rightarrow> (string \<times> pyval) list \<Rightarrow> string \<Rightarrow> error + real" where
  "req_float to_float kvs k =
     (case map_of kvs k of
        None \<Rightarrow> invalid k
      | Some v \<Rightarrow> (case to_float v of None \<Rightarrow> invalid k | Some r \<Rightarrow> Inr r))"

text \<open>\<open>str = Field(default=d, min_length=n)\<close>: the default is not validated.\<close>

definition dflt_str :: "(string \<times> pyval) list \<Rightarrow> string \<Rightarrow> string \<Rightarrow> nat \<Rightarrow> error + string" where
  "dflt_str kvs k dflt min_length =
     (case map_of kvs k of
        None \<Rightarrow> Inr dflt
      | Some (PStr s) \<Rightarrow> if min_length \<le> length s then Inr s else invalid k
      | Some _ \<Rightarrow> invalid k)"

definition optional_str :: "(string \<times> pyval) list \<Rightarrow> string \<Rightarrow> error + string option" where
  "optional_str kvs k =
     (case map_of kvs k of
        None \<Rightarrow> Inr None
      | Some PNone \<Rightarrow> Inr None
      | Some (PStr s) \<Rightarrow> Inr (Some s)
      | Some _ \<Rightarrow> invalid k)"

text \<open>\<open>Optional[float] = Field(default=None, ge=0, le=1)\<close>.\<close>

definition optional_unit_float ::
  "float_validator \<Rightarrow> (string \<times> pyval) list \<Rightarrow> string \<Rightarrow> error + real option" where
  "optional_unit_float to_float kvs k =
     (case map_of kvs k of
        None \<Rightarrow> Inr None
      | Some PNone \<Rightarrow> Inr None
      | Some v \<Rightarrow>
          (case to_float v of
             None \<Rightarrow> invalid k
           | Some r \<Rightarrow> if 0 \<le> r \<and> r \<le> 1 then Inr (Some r) else invalid k))"

definition EntryMeta_validate :: "float_validator \<Rightarrow> pyval \<Rightarrow> error + EntryMeta" where
  "EntryMeta_validate to_float v =
     (case v of
        PDict kvs \<Rightarrow>
          ebind (optional_str kvs ''voiceText'') (\<lambda>vt.
          ebind (optional_unit_float to_float kvs ''asrConfidence'') (\<lambda>ac.
          ebind (optional_str kvs ''lang'') (\<lambda>lg.
          Inr \<lparr>voiceText = vt, asrConfidence = ac, lang = lg\<rparr>)))
      | _ \<Rightarrow> invalid ''meta'')"

definition optional_meta ::
  "float_validator \<Rightarrow> (string \<times> pyval) list \<Rightarrow> error + EntryMeta option" where
  "optional_meta to_float kvs =
     (case map_of kvs ''meta'' of
        None \<Rightarrow> Inr None
      | Some PNone \<Rightarrow> Inr None
      | Some (PModel m) \<Rightarrow> Inr (Some m)
      | Some v \<Rightarrow> ebind (EntryMeta_validate to_float v) (\<lambda>m. Inr (Some m)))"

definition EntryCreate_validate :: "float_validator \<Rightarrow> pyval \<Rightarrow> error + EntryCreate" where
  "EntryCreate_validate to_float body =
     (case body of
        PDict kvs \<Rightarrow>
          ebind (req_literal kvs ''entryType'' [''expense'', ''income'']) (\<lambda>et.
          ebind (req_str kvs ''category'') (\<lambda>cat.
          ebind (req_float to_float kvs ''amount'') (\<lambda>amt.
          ebind (dflt_str kvs ''currency'' ''PKR'' 1) (\<lambda>cur.
          ebind (dflt_str kvs ''paymentMethod'' ''cash'' 0) (\<lambda>pm.
          ebind (optional_str kvs ''notes'') (\<lambda>nt.
          ebind (opt_literal kvs ''recordedBy'' [''voice'', ''manual''] ''manual'') (\<lambda>rb.
          ebind (optional_str kvs ''deviceId'') (\<lambda>dev.
          ebind (optional_meta to_float kvs) (\<lambda>mt.
          Inr \<lparr>entryType = et, category = cat, amount = amt, currency = cur,
               paymentMethod = pm, notes_field = nt, recordedBy = rb, deviceId = dev,
               meta = mt\<rparr>)))))))))
      | _ \<Rightarrow> invalid ''body'')"

section \<open>The document store behind \<open>httpx\<close>\<close>

text \<open>
  The store is outside the program. A \<open>net\<close> holds the answers the store will give to
  the next calls, in order, and the requests sent so far. An answer is a response or
  the exception of a failed transport (a refused connection, a timeout); a call with no
  answer left finds the store unreachable and fails as a refused connection does.
  \<open>res_json\<close> is what \<open>res.json()\<close> does: it returns the parsed body, or raises
  \<open>JSONDecodeError\<close> with the message given when the body is not JSON.
\<close>

datatype verb = GET | PUT | POST

record request =
  verb :: verb
  url :: string
  params :: "(string \<times> string) list"
  headers :: "(string \<times> string) list"
  content :: "string option"
  json_body :: "pyval option"

record response =
  status_code :: int
  res_text :: string
  res_json :: "string + pyval"

record net =
  answers :: "(error + response) list"
  sent :: "request list"

definition send :: "request \<Rightarrow> net \<Rightarrow> (error + response) \<times> net" where
  "send rq n =
     (case answers n of
        [] \<Rightarrow> (Inl (TransportError ''All connection attempts failed''),
               n\<lparr>sent := sent n @ [rq]\<rparr>)
      | a # rest \<Rightarrow> (a, \<lparr>answers = rest, sent = sent n @ [rq]\<rparr>))"

definition accept_json :: "(string \<times> string) list" where
  "accept_json = [(''Accept'', ''application/json'')]"

section \<open>Database Existence Ensurer (\<open>ensure_db_exists\<close>, api/index.py)\<close>

definition ensure_db_exists :: "string \<Rightarrow> string \<Rightarrow> net \<Rightarrow> (error + unit) \<times> net" where
  "ensure_db_exists base db_name n =
     (case validate_db_name db_name of
        Inl e \<Rightarrow> (Inl e, n)
      | Inr _ \<Rightarrow>
         (let db_path = base @ ''/'' @ quote db_name in
          case send \<lparr>verb = GET, url = db_path, params = [], headers = accept_json,
                     content = None, json_body = None\<rparr> n of
            (Inl e, n1) \<Rightarrow> (Inl e, n1)
          | (Inr get_res, n1) \<Rightarrow>
             if status_code get_res = 200 then (Inr (), n1)
             else if status_code get_res \<in> {401, 403} then
               (Inl (RuntimeError ''Unauthorized to access CouchDB. Check credentials/URL.''), n1)
             else if status_code get_res \<notin> {404} then
               (Inl (RuntimeError (''Failed to query DB: '' @ str_int (status_code get_res) @
                                   '' '' @ res_text get_res)), n1)
             else
               (case send \<lparr>verb = PUT, url = db_path, params = [], headers = accept_json,
                           content = Some [], json_body = None\<rparr> n1 of
                  (Inl e, n2) \<Rightarrow> (Inl e, n2)
                | (Inr put_res, n2) \<Rightarrow>
                   if status_code put_res \<in> {200, 201, 202, 412} then (Inr (), n2)
                   else if status_code put_res \<in> {401, 403} then
                     (Inl (RuntimeError ''Unauthorized to create DB. Check credentials/URL.''), n2)
                   else
                     (Inl (RuntimeError (''Failed to ensure DB exists: '' @
                                         str_int (status_code put_res) @ '' '' @
                                         res_text put_res)), n2))))"

text \<open>
  The error kinds of the specification, read off the exceptions the function raises:
  an \<open>AuthError\<close> is one of the two "Unauthorized" errors, a \<open>StoreError\<close> carries the
  status and the body of the response in its message.
\<close>

definition AuthError :: "error \<Rightarrow> bool" where
  "AuthError e =
     (e = RuntimeError ''Unauthorized to access CouchDB. Check credentials/URL.'' \<or>
      e = RuntimeError ''Unauthorized to create DB. Check credentials/URL.'')"

definition StoreError :: "int \<Rightarrow> string \<Rightarrow> error \<Rightarrow> bool" where
  "StoreError st body e =
     (e = RuntimeError (''Failed to query DB: '' @ str_int st @ '' '' @ body) \<or>
      e = RuntimeError (''Failed to ensure DB exists: '' @ str_int st @ '' '' @ body))"

section \<open>Create Entry (\<open>create_entry\<close>, api/index.py)\<close>

text \<open>
  The entries of the dict display that builds \<open>doc\<close>, in the order written: each key
  with the value of its expression or the exception the expression raises.
  \<open>build_dict\<close> evaluates them from first to last and stops at the first exception.
\<close>

definition doc_items :: "EntryCreate \<Rightarrow> string \<Rightarrow> string \<Rightarrow> (string \<times> (error + pyval)) list" where
  "doc_items payload now_iso doc_id =
     [(''_id'', Inr (PStr doc_id)),
      (''type'', Inr (PStr ''entry'')),
      (''entryType'', EntryCreate_getattr payload ''entryType''),
      (''category'', EntryCreate_getattr payload ''category''),
      (''amount'', EntryCreate_getattr payload ''amount''),
      (''currency'',
         ebind (EntryCreate_getattr payload ''currency'') (\<lambda>v. Inr (py_or v (PStr ''PKR'')))),
      (''paymentMethod'',
         ebind (EntryCreate_getattr payload ''paymentMethod'') (\<lambda>v. Inr (py_or v (PStr ''cash'')))),
      (''notes'', EntryCreate_getattr payload ''notes''),
      (''createdAt'',
         ebind (EntryCreate_getattr payload ''date'') (\<lambda>v. Inr (py_or v (PStr now_iso)))),
      (''recordedBy'', EntryCreate_getattr payload ''recordedBy''),
      (''deviceId'', EntryCreate_getattr payload ''deviceId''),
      (''syncStatus'', Inr (PStr ''local'')),
      (''meta'',
         ebind (EntryCreate_getattr payload ''meta'')
           (\<lambda>m. if truthy m then model_dump m else Inr PNone))]"

definition build_dict :: "(string \<times> (error + pyval)) list \<Rightarrow> error + pyval" where
  "build_dict items =
     ebind (sequence (map snd items)) (\<lambda>vs. Inr (PDict (zip (map fst items) vs)))"

text \<open>
  The handler, given the environment, the clock reading of \<open>datetime.utcnow()\<close>, the
  random source, the validated payload and the store.
\<close>

definition create_entry ::
  "environ \<Rightarrow> datetime \<Rightarrow> (nat \<Rightarrow> nat) \<Rightarrow> EntryCreate \<Rightarrow> net \<Rightarrow> (error + pyval) \<times> net" where
  "create_entry env clock rnd payload n =
     (case get_couch_config env of
        Inl e \<Rightarrow> (Inl e, n)
      | Inr cfg \<Rightarrow>
         (let now_iso = isoformat_ms clock @ ''Z'' in
          case generate_short_id rnd 7 of
            Inl e \<Rightarrow> (Inl e, n)
          | Inr short_id \<Rightarrow>
             (let doc_id = ''#'' @ short_id in
              case build_dict (doc_items payload now_iso doc_id) of
                Inl e \<Rightarrow> (Inl e, n)
              | Inr doc \<Rightarrow>
                 (case send \<lparr>verb = POST, url = base_url cfg @ ''/'' @ db cfg, params = [],
                             headers = [], content = None, json_body = Some doc\<rparr> n of
                    (Inl e, n1) \<Rightarrow> (Inl e, n1)
                  | (Inr res, n1) \<Rightarrow>
                     if status_code res \<notin> {200, 201, 202} then
                       (Inl (HTTPException 500 (''CouchDB error: '' @ res_text res)), n1)
                     else (Inr doc, n1)))))"

text \<open>\<open>POST /entries\<close>: the framework validates the body, then calls the handler.\<close>

definition post_entries ::
  "float_validator \<Rightarrow> environ \<Rightarrow> datetime \<Rightarrow> (nat \<Rightarrow> nat) \<Rightarrow> pyval \<Rightarrow> net \<Rightarrow>
   (error + pyval) \<times> net" where
  "post_entries to_float env clock rnd body n =
     (case EntryCreate_validate to_float body of
        Inl e \<Rightarrow> (Inl e, n)
      | Inr payload \<Rightarrow> create_entry env clock rnd payload n)"

section \<open>List Entries (\<open>list_entries\<close>, api/index.py)\<close>

text \<open>
  \<open>v.get(k, dflt)\<close> exists on a dict only. Iteration runs over the items of a list,
  the keys of a dict, the characters of a string and the (name, value) pairs of a model
  instance, a pair written as a two-element list; nothing else is iterable.
\<close>

definition py_get :: "pyval \<Rightarrow> string \<Rightarrow> pyval \<Rightarrow> error + pyval" where
  "py_get v k dflt =
     (case v of
        PDict kvs \<Rightarrow> Inr (case map_of kvs k of None \<Rightarrow> dflt | Some x \<Rightarrow> x)
      | _ \<Rightarrow> Inl (no_attribute (type_name v) ''get''))"

definition py_iter :: "pyval \<Rightarrow> error + pyval list" where
  "py_iter v =
     (case v of
        PList xs \<Rightarrow> Inr xs
      | PDict kvs \<Rightarrow> Inr (map (\<lambda>kv. PStr (fst kv)) kvs)
      | PStr s \<Rightarrow> Inr (map (\<lambda>c. PStr [c]) s)
      | PModel m \<Rightarrow>
          Inr [PList [PStr ''voiceText'', opt_str (voiceText m)],
               PList [PStr ''asrConfidence'', opt_float (asrConfidence m)],
               PList [PStr ''lang'', opt_str (lang m)]]
      | _ \<Rightarrow> Inl (TypeError ([CHR 0x27] @ type_name v @ [CHR 0x27] @ '' object is not iterable'')))"

text \<open>\<open>isinstance(doc, dict) and doc.get("type") == "entry"\<close>.\<close>

definition is_entry_doc :: "pyval \<Rightarrow> bool" where
  "is_entry_doc doc =
     (case doc of PDict kvs \<Rightarrow> map_of kvs ''type'' = Some (PStr ''entry'') | _ \<Rightarrow> False)"

text \<open>The \<open>for row in rows\<close> loop, with \<open>docs\<close> as the list built so far.\<close>

fun collect_entries :: "pyval list \<Rightarrow> pyval list \<Rightarrow> error + pyval list" where
  "collect_entries [] docs = Inr docs"
| "collect_entries (row # rows) docs =
     (case py_get row ''doc'' PNone of
        Inl e \<Rightarrow> Inl e
      | Inr doc \<Rightarrow> collect_entries rows (if is_entry_doc doc then docs @ [doc] else docs))"

definition list_params :: "int option \<Rightarrow> int option \<Rightarrow> (string \<times> string) list" where
  "list_params limit skip =
     [(''include_docs'', ''true'')] @
     (case limit of None \<Rightarrow> [] | Some l \<Rightarrow> [(''limit'', str_int l)]) @
     (case skip of None \<Rightarrow> [] | Some k \<Rightarrow> [(''skip'', str_int k)])"

definition rows_of :: "response \<Rightarrow> error + pyval list" where
  "rows_of res =
     ebind (case res_json res of Inl m \<Rightarrow> Inl (JSONDecodeError m) | Inr d \<Rightarrow> Inr d) (\<lambda>data.
     ebind (py_get data ''rows'' (PList [])) (\<lambda>rows.
     py_iter rows))"

definition list_entries_body ::
  "environ \<Rightarrow> int option \<Rightarrow> int option \<Rightarrow> net \<Rightarrow> (error + pyval list) \<times> net" where
  "list_entries_body env limit skip n =
     (case get_couch_config env of
        Inl e \<Rightarrow> (Inl e, n)
      | Inr cfg \<Rightarrow>
         (case ensure_db_exists (base_url cfg) (db cfg) n of
            (Inl e, n1) \<Rightarrow> (Inl e, n1)
          | (Inr _, n1) \<Rightarrow>
             (case send \<lparr>verb = GET, url = base_url cfg @ ''/'' @ db cfg @ ''/_all_docs'',
                         params = list_params limit skip, headers = accept_json,
                         content = None, json_body = None\<rparr> n1 of
                (Inl e, n2) \<Rightarrow> (Inl e, n2)
              | (Inr res, n2) \<Rightarrow>
                 if status_code res \<noteq> 200 then
                   (Inl (HTTPException 500 (''CouchDB error: '' @ res_text res)), n2)
                 else (ebind (rows_of res) (\<lambda>rows. collect_entries rows []), n2))))"

text \<open>The \<open>except Exception\<close> clause around the whole body.\<close>

definition list_entries ::
  "environ \<Rightarrow> int option \<Rightarrow> int option \<Rightarrow> net \<Rightarrow> (error + pyval list) \<times> net" where
  "list_entries env limit skip n =
     (case list_entries_body env limit skip n of
        (Inl e, n') \<Rightarrow> (Inl (HTTPException 500 (''Error: '' @ exc_str e)), n')
      | (Inr docs, n') \<Rightarrow> (Inr docs, n'))"

section \<open>Vocabulary of the statements\<close>

text \<open>
  What a request looks like on the wire (verb and URL), failing with an error of a given
  kind, and the \<open>ConfigError\<close> of the specification: the \<open>HTTPException\<close> with status
  500 whose detail starts with \<open>Config error:\<close>.
\<close>

definition wire :: "request \<Rightarrow> verb \<times> string" where
  "wire rq = (verb rq, url rq)"

definition fails_with :: "(error \<Rightarrow> bool) \<Rightarrow> error + 'a \<Rightarrow> bool" where
  "fails_with P r = (case r of Inl e \<Rightarrow> P e | Inr _ \<Rightarrow> False)"

definition ConfigError :: "error \<Rightarrow> bool" where
  "ConfigError e =
     (case e of HTTPException sc d \<Rightarrow> sc = 500 \<and> take 14 d = ''Config error: ''
      | _ \<Rightarrow> False)"


text \<open>
  A row of a listing that is a JSON object, and the document embedded in it under
  \<open>doc\<close> (\<open>None\<close> when the row has none).
\<close>

definition is_object :: "pyval \<Rightarrow> bool" where
  "is_object v = (case v of PDict _ \<Rightarrow> True | _ \<Rightarrow> False)"

definition row_doc :: "pyval \<Rightarrow> pyval" where
  "row_doc row =
     (case row of
        PDict kvs \<Rightarrow> (case map_of kvs ''doc'' of None \<Rightarrow> PNone | Some d \<Rightarrow> d)
      | _ \<Rightarrow> PNone)"

subsection \<open>Concrete inputs\<close>

definition example_env :: environ where
  "example_env k = (if k = ''COUCHDB_URL'' then Some ''http://db:5984/'' else None)"

definition example_clock :: datetime where
  "example_clock =
     \<lparr>year = 2024, month = 5, day = 1, hour = 10, minute = 30, second = 0,
      microsecond = 123456\<rparr>"

definition example_rnd :: "nat \<Rightarrow> nat" where
  "example_rnd k = 8 * k"

definition example_body :: "(string \<times> pyval) list" where
  "example_body =
     [(''entryType'', PStr ''expense''), (''category'', PStr ''food''),
      (''amount'', PFloat 12.5)]"

text \<open>
  A float validator for the concrete evaluations: it takes a float as it is. Every
  number in the bodies evaluated below is a float, so what a validator does with other
  inputs plays no part there.
\<close>

definition float_as_is :: float_validator where
  "float_as_is v = (case v of PFloat r \<Rightarrow> Some r | _ \<Rightarrow> None)"

definition example_payload :: EntryCreate where
  "example_payload =
     \<lparr>entryType = ''expense'', category = ''food'', amount = 12.5, currency = ''PKR'',
      paymentMethod = ''cash'', notes_field = None, recordedBy = ''manual'',
      deviceId = None, meta = None\<rparr>"

definition quoted_env :: environ where
  "quoted_env k =
     (if k = ''COUCHDB_URL'' then Some []
      else if k = ''NEXT_PUBLIC_COUCHDB_URL''
        then Some ([CHR '' '', CHR 0x22] @ ''http://db:5984//'' @ [CHR 0x22, NL])
      else if k = ''NEXT_PUBLIC_DB_NAME'' then Some '' ledger ''
      else None)"

definition blank_env :: environ where
  "blank_env k = (if k = ''COUCHDB_URL'' then Some ''  '' else None)"

definition answer :: "int \<Rightarrow> error + response" where
  "answer st = Inr \<lparr>status_code = st, res_text = ''{}'', res_json = Inr (PDict [])\<rparr>"

definition example_listing :: "pyval list" where
  "example_listing =
     [PDict [(''id'', PStr ''#a''),
             (''doc'', PDict [(''_id'', PStr ''#a''), (''type'', PStr ''entry'')])],
      PDict [(''id'', PStr ''_design/x''),
             (''doc'', PDict [(''_id'', PStr ''_design/x''), (''views'', PDict [])])],
      PDict [(''id'', PStr ''n1''),
             (''doc'', PDict [(''_id'', PStr ''n1''), (''type'', PStr ''note'')])],
      PDict [(''id'', PStr ''gone'')],
      PDict [(''id'', PStr ''nul''), (''doc'', PNone)],
      PDict [(''id'', PStr ''#b''),
             (''doc'', PDict [(''_id'', PStr ''#b''), (''type'', PStr ''entry'')])]]"

section \<open>Name Validator: what the pattern accepts\<close>

lemmas char_class_defs = is_lower_def is_upper_def is_digit_def is_name_char_def cp_def NL_def

lemma NL_not_name_char: "\<not> is_name_char NL"
  by (simp add: char_class_defs)

lemma re_star_eol:
  "\<not> c NL \<Longrightarrow>
   re_here [StarCls c, Eol] pos s = (list_all c s \<or> (\<exists>t. s = t @ [NL] \<and> list_all c t))"
proof (induction s arbitrary: pos)
  case Nil
  then show ?case by simp
next
  case (Cons x t)
  show ?case
  proof (cases "c x")
    case True
    with Cons show ?thesis by (auto simp: Cons_eq_append_conv)
  next
    case False
    with Cons show ?thesis by (auto simp: Cons_eq_append_conv)
  qed
qed

lemma re_match_db_name:
  "re_match db_name_pattern s =
     (db_name_grammar s \<or> (\<exists>t. s = t @ [NL] \<and> db_name_grammar t))"
proof (cases s)
  case Nil
  then show ?thesis by (simp add: re_match_def db_name_pattern_def)
next
  case (Cons x t)
  have nl: "\<not> is_lower NL" by (simp add: char_class_defs)
  show ?thesis
    unfolding Cons re_match_def db_name_pattern_def
    using nl
    by (auto simp: re_star_eol [of is_name_char, OF NL_not_name_char] Cons_eq_append_conv)
qed

lemma validate_db_name_iff:
  "(validate_db_name s = Inr ()) =
     (db_name_grammar s \<or> (\<exists>t. s = t @ [NL] \<and> db_name_grammar t))"
  by (cases s) (auto simp: validate_db_name_def re_match_db_name)

lemma grammar_no_NL: "db_name_grammar t \<Longrightarrow> \<not> db_name_grammar (t @ [NL])"
  using NL_not_name_char by (cases t) auto

lemma quote_NL: "quote (s @ [NL]) = quote s @ ''%0A''"
  by (simp add: quote_def quote_char_def always_safe_def char_class_defs pct_byte_def
      hex_digit_def)

lemma quote_fintech: "quote ''fintech'' = ''fintech''"
  by (simp add: quote_def quote_char_def always_safe_def char_class_defs)

lemma validate_fintech: "validate_db_name ''fintech'' = Inr ()"
  by (simp add: validate_db_name_def re_match_def db_name_pattern_def char_class_defs)

text \<open>
  C5. The validator is claimed to fail exactly on the names outside the grammar. The four
  names the specification lists behave as it says, but a grammar name followed by a
  newline is outside the grammar and passes: \<open>$\<close> matches before the final newline.
\<close>

theorem validate_db_name_newline_slip:
  "validate_db_name ''fintech'' = Inr () \<and>
   validate_db_name ''Fintech'' \<noteq> Inr () \<and>
   validate_db_name '''' \<noteq> Inr () \<and>
   validate_db_name ''_abc'' \<noteq> Inr () \<and>
   \<not> db_name_grammar
       [CHR ''f'', CHR ''i'', CHR ''n'', CHR ''t'', CHR ''e'', CHR ''c'', CHR ''h'', NL] \<and>
   validate_db_name
       [CHR ''f'', CHR ''i'', CHR ''n'', CHR ''t'', CHR ''e'', CHR ''c'', CHR ''h'', NL] = Inr ()"
  by (simp add: validate_db_name_def re_match_def db_name_pattern_def char_class_defs)

section \<open>Database Existence Ensurer\<close>

lemma ensure_get_200:
  assumes "validate_db_name db_name = Inr ()" "answers n = Inr g # rest" "status_code g = 200"
  shows "ensure_db_exists base db_name n =
           (Inr (), \<lparr>answers = rest, sent = sent n @
               [\<lparr>verb = GET, url = base @ ''/'' @ quote db_name, params = [],
                 headers = accept_json, content = None, json_body = None\<rparr>]\<rparr>)"
  using assms by (simp add: ensure_db_exists_def send_def)

lemma ensure_get_other:
  assumes "validate_db_name db_name = Inr ()" "answers n = Inr g # rest"
    "status_code g \<noteq> 200" "status_code g \<noteq> 404"
  shows "ensure_db_exists base db_name n =
           (Inl (if status_code g \<in> {401, 403}
                 then RuntimeError ''Unauthorized to access CouchDB. Check credentials/URL.''
                 else RuntimeError (''Failed to query DB: '' @ str_int (status_code g) @
                                   '' '' @ res_text g)),
            \<lparr>answers = rest, sent = sent n @
               [\<lparr>verb = GET, url = base @ ''/'' @ quote db_name, params = [],
                 headers = accept_json, content = None, json_body = None\<rparr>]\<rparr>)"
  using assms by (simp add: ensure_db_exists_def send_def)

lemma ensure_get_404_sent:
  assumes "validate_db_name db_name = Inr ()" "answers n = Inr g # rest" "status_code g = 404"
  shows "sent (snd (ensure_db_exists base db_name n)) = sent n @
               [\<lparr>verb = GET, url = base @ ''/'' @ quote db_name, params = [],
                 headers = accept_json, content = None, json_body = None\<rparr>,
                \<lparr>verb = PUT, url = base @ ''/'' @ quote db_name, params = [],
                 headers = accept_json, content = Some [], json_body = None\<rparr>]"
  using assms
  by (auto simp: ensure_db_exists_def send_def Let_def split: list.splits sum.splits)

lemma ensure_get_404_put:
  assumes "validate_db_name db_name = Inr ()" "answers n = Inr g # Inr pr # rest'"
    "status_code g = 404"
  shows "fst (ensure_db_exists base db_name n) =
           (if status_code pr \<in> {200, 201, 202, 412} then Inr ()
            else if status_code pr \<in> {401, 403}
            then Inl (RuntimeError ''Unauthorized to create DB. Check credentials/URL.'')
            else Inl (RuntimeError (''Failed to ensure DB exists: '' @
                        str_int (status_code pr) @ '' '' @ res_text pr)))"
  using assms by (simp add: ensure_db_exists_def send_def Let_def)

lemma ensure_first_request:
  assumes "validate_db_name db_name = Inr ()"
  shows "\<exists>more. sent (snd (ensure_db_exists base db_name n)) = sent n @
           \<lparr>verb = GET, url = base @ ''/'' @ quote db_name, params = [],
            headers = accept_json, content = None, json_body = None\<rparr> # more"
  using assms
  by (auto simp: ensure_db_exists_def send_def Let_def split: list.splits sum.splits)

lemma ensure_invalid_name:
  "validate_db_name db_name = Inl e \<Longrightarrow> ensure_db_exists base db_name n = (Inl e, n)"
  by (simp add: ensure_db_exists_def)

text \<open>
  C4. For a database name that passes the validator and a store that answers the GET
  with a response \<open>g\<close>: status 200 succeeds after the GET alone; 401 and 403 fail with an
  AuthError after the GET alone; 404 sends exactly one PUT to the same path, which
  succeeds exactly on 200, 201, 202 and 412, fails with an AuthError on 401 and 403 and
  with a StoreError carrying its status and body otherwise; any other GET status fails
  with a StoreError carrying the status and body, after the GET alone.
\<close>

theorem ensure_db_exists_state_machine:
  assumes valid: "validate_db_name db_name = Inr ()"
    and ans: "answers n = Inr g # rest"
    and p: "p = base @ ''/'' @ quote db_name"
    and r: "r = ensure_db_exists base db_name n"
  shows
    "(status_code g = 200 \<longrightarrow>
        fst r = Inr () \<and> map wire (sent (snd r)) = map wire (sent n) @ [(GET, p)]) \<and>
     (status_code g \<in> {401, 403} \<longrightarrow>
        fails_with AuthError (fst r) \<and>
        map wire (sent (snd r)) = map wire (sent n) @ [(GET, p)]) \<and>
     (status_code g \<notin> {200, 401, 403, 404} \<longrightarrow>
        fails_with (StoreError (status_code g) (res_text g)) (fst r) \<and>
        map wire (sent (snd r)) = map wire (sent n) @ [(GET, p)]) \<and>
     (status_code g = 404 \<longrightarrow>
        map wire (sent (snd r)) = map wire (sent n) @ [(GET, p), (PUT, p)] \<and>
        (\<forall>pr rest'. rest = Inr pr # rest' \<longrightarrow>
           ((fst r = Inr ()) = (status_code pr \<in> {200, 201, 202, 412})) \<and>
           (status_code pr \<in> {401, 403} \<longrightarrow> fails_with AuthError (fst r)) \<and>
           (status_code pr \<notin> {200, 201, 202, 412, 401, 403} \<longrightarrow>
              fails_with (StoreError (status_code pr) (res_text pr)) (fst r))))"
proof (intro conjI impI allI)
  assume "status_code g = 200"
  from ensure_get_200 [OF valid ans this]
  show "fst r = Inr ()" "map wire (sent (snd r)) = map wire (sent n) @ [(GET, p)]"
    by (simp_all add: r p wire_def)
next
  assume a: "status_code g \<in> {401, 403}"
  then have "status_code g \<noteq> 200" "status_code g \<noteq> 404" by auto
  from ensure_get_other [OF valid ans this] a
  show "fails_with AuthError (fst r)" "map wire (sent (snd r)) = map wire (sent n) @ [(GET, p)]"
    by (simp_all add: r p wire_def fails_with_def AuthError_def)
next
  assume a: "status_code g \<notin> {200, 401, 403, 404}"
  then have "status_code g \<noteq> 200" "status_code g \<noteq> 404" by auto
  from ensure_get_other [OF valid ans this] a
  show "fails_with (StoreError (status_code g) (res_text g)) (fst r)"
    "map wire (sent (snd r)) = map wire (sent n) @ [(GET, p)]"
    by (simp_all add: r p wire_def fails_with_def StoreError_def)
next
  assume a: "status_code g = 404"
  from ensure_get_404_sent [OF valid ans a]
  show "map wire (sent (snd r)) = map wire (sent n) @ [(GET, p), (PUT, p)]"
    by (simp add: r p wire_def)
  fix pr rest' assume rest: "rest = Inr pr # rest'"
  note put = ensure_get_404_put [OF valid ans [unfolded rest] a]
  show "(fst r = Inr ()) = (status_code pr \<in> {200, 201, 202, 412})"
    by (simp add: r put)
  { assume "status_code pr \<in> {401, 403}"
    then show "fails_with AuthError (fst r)"
      by (auto simp: r put fails_with_def AuthError_def) }
  { assume "status_code pr \<notin> {200, 201, 202, 412, 401, 403}"
    then show "fails_with (StoreError (status_code pr) (res_text pr)) (fst r)"
      by (auto simp: r put fails_with_def StoreError_def) }
qed

theorem ensure_db_exists_state_machine_witness:
  "validate_db_name ''fintech'' = Inr () \<and>
   fst (ensure_db_exists ''http://db:5984'' ''fintech''
          \<lparr>answers = [answer 200], sent = []\<rparr>) = Inr () \<and>
   map wire (sent (snd (ensure_db_exists ''http://db:5984'' ''fintech''
          \<lparr>answers = [answer 200], sent = []\<rparr>))) = [(GET, ''http://db:5984/fintech'')] \<and>
   fails_with AuthError (fst (ensure_db_exists ''http://db:5984'' ''fintech''
          \<lparr>answers = [answer 401], sent = []\<rparr>)) \<and>
   map wire (sent (snd (ensure_db_exists ''http://db:5984'' ''fintech''
          \<lparr>answers = [answer 401], sent = []\<rparr>))) = [(GET, ''http://db:5984/fintech'')] \<and>
   fails_with (StoreError 500 ''{}'') (fst (ensure_db_exists ''http://db:5984'' ''fintech''
          \<lparr>answers = [answer 500], sent = []\<rparr>)) \<and>
   fst (ensure_db_exists ''http://db:5984'' ''fintech''
          \<lparr>answers = [answer 404, answer 412], sent = []\<rparr>) = Inr () \<and>
   map wire (sent (snd (ensure_db_exists ''http://db:5984'' ''fintech''
          \<lparr>answers = [answer 404, answer 412], sent = []\<rparr>)))
     = [(GET, ''http://db:5984/fintech''), (PUT, ''http://db:5984/fintech'')] \<and>
   fails_with AuthError (fst (ensure_db_exists ''http://db:5984'' ''fintech''
          \<lparr>answers = [answer 404, answer 403], sent = []\<rparr>)) \<and>
   fails_with (StoreError 500 ''{}'') (fst (ensure_db_exists ''http://db:5984'' ''fintech''
          \<lparr>answers = [answer 404, answer 500], sent = []\<rparr>))"
proof -
  note v = validate_fintech
  have a: "\<And>st rest. answers \<lparr>answers = answer st # rest, sent = []\<rparr>
             = Inr \<lparr>status_code = st, res_text = ''{}'', res_json = Inr (PDict [])\<rparr> # rest"
    by (simp add: answer_def)
  { fix st rest
    note ensure_db_exists_state_machine
      [where base = "''http://db:5984''", OF v a [of st rest] refl refl] }
  note sm = this
  show ?thesis
    using v sm [of 200 "[]"] sm [of 401 "[]"] sm [of 500 "[]"]
      sm [of 404 "[answer 412]"] sm [of 404 "[answer 403]"] sm [of 404 "[answer 500]"]
    by (simp add: quote_fintech answer_def)
qed

text \<open>
  C10. A name of the grammar followed by one newline is not a name of the grammar, yet
  the validator accepts it, and the first request of the ensurer then goes to the path
  in which the name is percent-encoded, the newline as \<open>%0A\<close>.
\<close>

theorem trailing_newline_accepted:
  assumes "db_name_grammar name"
  shows "\<not> db_name_grammar (name @ [NL]) \<and>
         validate_db_name (name @ [NL]) = Inr () \<and>
         sent (snd (ensure_db_exists base (name @ [NL]) \<lparr>answers = as, sent = []\<rparr>)) \<noteq> [] \<and>
         url (hd (sent (snd (ensure_db_exists base (name @ [NL]) \<lparr>answers = as, sent = []\<rparr>))))
           = base @ ''/'' @ quote name @ ''%0A''"
proof -
  have v: "validate_db_name (name @ [NL]) = Inr ()"
    using assms by (simp add: validate_db_name_iff)
  from ensure_first_request [OF v, of base "\<lparr>answers = as, sent = []\<rparr>"]
  obtain more where
    "sent (snd (ensure_db_exists base (name @ [NL]) \<lparr>answers = as, sent = []\<rparr>)) =
       \<lparr>verb = GET, url = base @ ''/'' @ quote (name @ [NL]), params = [],
        headers = accept_json, content = None, json_body = None\<rparr> # more"
    by auto
  then show ?thesis
    using v grammar_no_NL [OF assms] by (simp add: quote_NL)
qed

theorem trailing_newline_accepted_witness:
  "db_name_grammar ''fintech'' \<and>
   \<not> db_name_grammar (''fintech'' @ [NL]) \<and>
   validate_db_name (''fintech'' @ [NL]) = Inr () \<and>
   url (hd (sent (snd (ensure_db_exists ''http://db:5984'' (''fintech'' @ [NL])
                        \<lparr>answers = [], sent = []\<rparr>))))
     = ''http://db:5984/fintech%0A''"
proof -
  have g: "db_name_grammar ''fintech''" by (simp add: char_class_defs)
  show ?thesis
    using g trailing_newline_accepted [OF g, of "''http://db:5984''" "[]"]
    by (simp add: quote_fintech)
qed

section \<open>ID Generator\<close>

lemma sequence_choices:
  "\<forall>k \<in> set ks. rnd k < length a \<Longrightarrow>
   sequence (map (\<lambda>k. choice a (rnd k)) ks) = Inr (map (\<lambda>k. a ! rnd k) ks)"
  by (induction ks) (simp_all add: choice_def)

lemma alphabet_length: "length alphabet = 55"
  by (simp add: alphabet_def)

lemma alphabet_distinct: "distinct alphabet"
  by (simp add: alphabet_def)

lemma alphabet_excludes: "set ''01IOilo'' \<inter> set alphabet = {}"
  by (simp add: alphabet_def)

text \<open>
  C3, as stated: the alphabet is claimed to have 57 characters. It has 55.
\<close>

theorem alphabet_size_counterexample: "card (set alphabet) \<noteq> 57"
  using alphabet_distinct alphabet_length by (simp add: distinct_card)

text \<open>
  C3, amended. When the random source draws indices of the alphabet, as
  \<open>secrets.choice\<close> does, \<open>generate_short_id\<close> returns a string with one character per
  draw, as many as the length asked for (7 by default), the \<open>k\<close>-th being the alphabet's
  character at the \<open>k\<close>-th index drawn; the alphabet has 55 distinct characters, none of
  \<open>0 1 I O i l o\<close>.
\<close>

theorem generate_short_id_shape:
  assumes draws: "\<forall>k < nat len. rnd k < length alphabet"
    and s: "s = map (\<lambda>k. alphabet ! rnd k) [0 ..< nat len]"
  shows "generate_short_id rnd len = Inr s \<and> length s = nat len \<and>
         set s \<subseteq> set alphabet \<and>
         length alphabet = 55 \<and> distinct alphabet \<and> set ''01IOilo'' \<inter> set alphabet = {}"
proof -
  have "generate_short_id rnd len = Inr s"
    unfolding generate_short_id_def s using draws by (intro sequence_choices) simp
  moreover have "set s \<subseteq> set alphabet"
    unfolding s using draws by auto
  moreover have "length s = nat len"
    by (simp add: s)
  ultimately show ?thesis
    using alphabet_length alphabet_distinct alphabet_excludes by blast
qed

theorem generate_short_id_shape_witness:
  "generate_short_id example_rnd 7 = Inr ''2AJSajt'' \<and>
   length ''2AJSajt'' = nat 7 \<and>
   set ''2AJSajt'' \<subseteq> set alphabet"
proof -
  have d: "\<forall>k < nat 7. example_rnd k < length alphabet"
    by (simp add: example_rnd_def alphabet_length)
  have u: "[0 ..< nat 7] = [0, 1, 2, 3, 4, 5, 6]"
    by (simp add: upt_rec)
  have s: "map (\<lambda>k. alphabet ! example_rnd k) [0 ..< nat 7] = ''2AJSajt''"
    unfolding u by (simp add: example_rnd_def alphabet_def)
  show ?thesis
    using generate_short_id_shape [OF d refl] unfolding s by blast
qed

section \<open>List Entries\<close>

lemma collect_entries_filter:
  "list_all is_object rows \<Longrightarrow>
   collect_entries rows docs = Inr (docs @ filter is_entry_doc (map row_doc rows))"
proof (induction rows arbitrary: docs)
  case Nil
  then show ?case by simp
next
  case (Cons row rows)
  from Cons.prems obtain kvs where row: "row = PDict kvs"
    by (cases row) (simp_all add: is_object_def)
  from Cons.prems have "list_all is_object rows" by simp
  note IH = Cons.IH [OF this]
  show ?case
    by (simp add: row py_get_def row_doc_def IH split: option.splits)
qed

lemma example_env_config:
  "get_couch_config example_env = Inr \<lparr>base_url = ''http://db:5984'', db = ''fintech''\<rparr>"
  by (simp add: get_couch_config_def get_couch_config_body_def couch_url_of_def db_name_of_def
      example_env_def getenv_or_def strip_def lstrip_def rstrip_def is_space_def cp_def)

lemma example_db_exists:
  "ensure_db_exists ''http://db:5984'' ''fintech'' \<lparr>answers = answer 200 # rest, sent = []\<rparr>
     = (Inr (), \<lparr>answers = rest,
                sent = [\<lparr>verb = GET, url = ''http://db:5984/fintech'', params = [],
                        headers = accept_json, content = None, json_body = None\<rparr>]\<rparr>)"
  using ensure_get_200 [OF validate_fintech,
      of "\<lparr>answers = answer 200 # rest, sent = []\<rparr>"
         "\<lparr>status_code = 200, res_text = ''{}'', res_json = Inr (PDict [])\<rparr>" rest
         "''http://db:5984''"]
  by (simp add: answer_def quote_fintech)

text \<open>
  C6, as stated: every store listing response is claimed to be filtered without
  failing. A listing whose second row is \<open>null\<close> makes the handler fail: the loop calls
  \<open>row.get\<close> on it, and the \<open>except\<close> clause turns the \<open>AttributeError\<close> into status 500.
\<close>

theorem non_object_row_counterexample:
  "fst (list_entries example_env None None
          \<lparr>answers = [answer 200,
                      Inr \<lparr>status_code = 200, res_text = [],
                           res_json = Inr (PDict [(''rows'',
                             PList [PDict [(''id'', PStr ''#a''),
                                           (''doc'', PDict [(''_id'', PStr ''#a''),
                                                            (''type'', PStr ''entry'')])],
                                    PNone])])\<rparr>],
           sent = []\<rparr>)
   = Inl (HTTPException 500
            (''Error: '' @ [CHR 0x27] @ ''NoneType'' @ [CHR 0x27] @
             '' object has no attribute '' @ [CHR 0x27] @ ''get'' @ [CHR 0x27]))"
  by (simp add: list_entries_def list_entries_body_def example_env_config example_db_exists
      send_def rows_of_def ebind_def py_get_def py_iter_def is_entry_doc_def type_name_def
      no_attribute_def)

text \<open>
  C6, amended. When the configuration resolves, the database is there, and the store
  answers the listing with status 200 and a JSON object whose \<open>rows\<close> (none when the key
  is absent) are a list of objects, the handler returns the embedded documents of
  exactly the rows whose document is an object with \<open>type\<close> equal to \<open>"entry"\<close>, in the
  order of the rows; a row with no document, with a document that is not an object, or
  of another type is left out and the listing does not fail.
\<close>

theorem list_entries_filters:
  assumes cfg: "get_couch_config env = Inr cfg"
    and ens: "ensure_db_exists (base_url cfg) (db cfg) n = (Inr (), n1)"
    and ans: "answers n1 = Inr res # rest"
    and st: "status_code res = 200"
    and js: "res_json res = Inr (PDict kvs)"
    and rows: "case map_of kvs ''rows'' of None \<Rightarrow> rows = [] | Some v \<Rightarrow> v = PList rows"
    and obj: "list_all is_object rows"
  shows "fst (list_entries env limit skip n) = Inr (filter is_entry_doc (map row_doc rows))"
proof -
  have "rows_of res = Inr rows"
    using js rows by (simp add: rows_of_def ebind_def py_get_def py_iter_def split: option.splits)
  then have "ebind (rows_of res) (\<lambda>rows. collect_entries rows []) =
               Inr (filter is_entry_doc (map row_doc rows))"
    by (simp add: ebind_def collect_entries_filter [OF obj])
  then show ?thesis
    by (simp add: list_entries_def list_entries_body_def cfg ens send_def ans st)
qed

theorem list_entries_filters_witness:
  "fst (list_entries example_env (Some 6) None
          \<lparr>answers = [answer 200,
                      Inr \<lparr>status_code = 200, res_text = [],
                           res_json = Inr (PDict [(''total_rows'', PInt 6), (''offset'', PInt 0),
                                                  (''rows'', PList example_listing)])\<rparr>],
           sent = []\<rparr>)
   = Inr [PDict [(''_id'', PStr ''#a''), (''type'', PStr ''entry'')],
          PDict [(''_id'', PStr ''#b''), (''type'', PStr ''entry'')]]"
proof -
  let ?res = "\<lparr>status_code = 200, res_text = [],
                res_json = Inr (PDict [(''total_rows'', PInt 6), (''offset'', PInt 0),
                                       (''rows'', PList example_listing)])\<rparr>"
  have ens: "ensure_db_exists (base_url \<lparr>base_url = ''http://db:5984'', db = ''fintech''\<rparr>)
               (db \<lparr>base_url = ''http://db:5984'', db = ''fintech''\<rparr>)
               \<lparr>answers = [answer 200, Inr ?res], sent = []\<rparr>
             = (Inr (), \<lparr>answers = [Inr ?res],
                         sent = [\<lparr>verb = GET, url = ''http://db:5984/fintech'', params = [],
                                 headers = accept_json, content = None, json_body = None\<rparr>]\<rparr>)"
    by (simp add: example_db_exists)
  have obj: "list_all is_object example_listing"
    by (simp add: example_listing_def is_object_def)
  from list_entries_filters [OF example_env_config ens _ _ _ _ obj, of ?res "[]"
      "[(''total_rows'', PInt 6), (''offset'', PInt 0), (''rows'', PList example_listing)]"
      "Some 6" None]
  show ?thesis
    by (simp add: example_listing_def row_doc_def is_entry_doc_def)
qed

section \<open>Config Resolver\<close>

lemma getenv_or_first_non_empty:
  "getenv_or a (getenv_or b d) = first_non_empty [a, b] d"
  by (cases a; cases b) (simp_all add: getenv_or_def)

lemma rstrip_last: "rstrip P s \<noteq> [] \<Longrightarrow> \<not> P (last (rstrip P s))"
  unfolding rstrip_def by (simp add: last_rev hd_dropWhile)

lemma rstrip_prefix: "rstrip P s @ rev (takeWhile P (rev s)) = s"
proof -
  have "rev (takeWhile P (rev s) @ dropWhile P (rev s)) = s"
    by simp
  then show ?thesis
    unfolding rstrip_def by (simp only: rev_append)
qed

lemma rstrip_hd: "rstrip P s \<noteq> [] \<Longrightarrow> hd (rstrip P s) = hd s"
  using rstrip_prefix [of P s] by (metis hd_append2)

lemma strip_ends:
  assumes "strip P s \<noteq> []"
  shows "\<not> P (hd (strip P s)) \<and> \<not> P (last (strip P s))"
proof -
  from assms have ne: "lstrip P s \<noteq> []"
    by (auto simp: strip_def rstrip_def)
  then have "\<not> P (hd (lstrip P s))"
    unfolding lstrip_def by (rule hd_dropWhile)
  moreover have "hd (strip P s) = hd (lstrip P s)"
    using assms unfolding strip_def by (rule rstrip_hd)
  moreover have "\<not> P (last (strip P s))"
    using assms unfolding strip_def by (rule rstrip_last)
  ultimately show ?thesis by simp
qed

text \<open>
  C8. The URL is the first non-empty of \<open>COUCHDB_URL\<close> and \<open>NEXT_PUBLIC_COUCHDB_URL\<close>,
  trimmed of whitespace, then of double quotes, then of single quotes; the name is the
  first non-empty of \<open>COUCHDB_DB\<close> and \<open>NEXT_PUBLIC_DB_NAME\<close>, else \<open>fintech\<close>, trimmed
  of whitespace. The resolver fails, with a ConfigError, exactly when the trimmed URL
  is empty; otherwise it returns the URL without its trailing slashes and the name.
  The returned URL does not end in a slash and the returned name neither starts nor
  ends with whitespace.
\<close>

theorem get_couch_config_resolution:
  assumes raw: "raw = first_non_empty [env ''COUCHDB_URL'', env ''NEXT_PUBLIC_COUCHDB_URL''] []"
    and u: "u = strip (\<lambda>c. c = CHR 0x27) (strip (\<lambda>c. c = CHR 0x22) (strip is_space raw))"
    and name: "name = first_non_empty [env ''COUCHDB_DB'', env ''NEXT_PUBLIC_DB_NAME''] ''fintech''"
  shows "(fails_with ConfigError (get_couch_config env) = (u = [])) \<and>
         (isl (get_couch_config env) = (u = [])) \<and>
         (u \<noteq> [] \<longrightarrow>
            get_couch_config env =
              Inr \<lparr>base_url = rstrip (\<lambda>c. c = CHR ''/'') u, db = strip is_space name\<rparr>) \<and>
         (\<forall>cfg. get_couch_config env = Inr cfg \<longrightarrow>
            (base_url cfg = [] \<or> last (base_url cfg) \<noteq> CHR ''/'') \<and>
            (db cfg = [] \<or> (\<not> is_space (hd (db cfg)) \<and> \<not> is_space (last (db cfg)))))"
proof -
  have cu: "couch_url_of env = u"
    by (simp add: couch_url_of_def u raw getenv_or_first_non_empty)
  have dn: "db_name_of env = strip is_space name"
    by (simp add: db_name_of_def name getenv_or_first_non_empty)
  have eq: "get_couch_config env =
              (if u = [] then
                 Inl (HTTPException 500 ''Config error: COUCHDB_URL missing in environment'')
               else Inr \<lparr>base_url = rstrip (\<lambda>c. c = CHR ''/'') u, db = strip is_space name\<rparr>)"
    by (simp add: get_couch_config_def get_couch_config_body_def cu dn)
  have slash: "rstrip (\<lambda>c. c = CHR ''/'') u = [] \<or> last (rstrip (\<lambda>c. c = CHR ''/'') u) \<noteq> CHR ''/''"
    using rstrip_last [of "\<lambda>c. c = CHR ''/''" u] by blast
  have sp: "strip is_space name = [] \<or>
            (\<not> is_space (hd (strip is_space name)) \<and> \<not> is_space (last (strip is_space name)))"
    using strip_ends [of is_space name] by blast
  show ?thesis
    using slash sp by (auto simp: eq fails_with_def ConfigError_def)
qed

theorem get_couch_config_resolution_witness:
  "get_couch_config quoted_env = Inr \<lparr>base_url = ''http://db:5984'', db = ''ledger''\<rparr> \<and>
   get_couch_config example_env = Inr \<lparr>base_url = ''http://db:5984'', db = ''fintech''\<rparr> \<and>
   fails_with ConfigError (get_couch_config blank_env) \<and>
   fails_with ConfigError (get_couch_config (\<lambda>k. None))"
proof -
  note strips = strip_def lstrip_def rstrip_def is_space_def cp_def NL_def
  note r = get_couch_config_resolution [OF refl refl refl]
  show ?thesis
    using r [of quoted_env] r [of example_env] r [of blank_env] r [of "\<lambda>k. None"]
    by (simp add: quoted_env_def example_env_def blank_env_def strips)
qed

section \<open>Create Entry\<close>





lemma no_date_attribute:
  "EntryCreate_getattr payload ''date'' = Inl (no_attribute ''EntryCreate'' ''date'')"
  by (simp add: EntryCreate_getattr_def)

lemma sequence_Inl:
  "sequence (map Inr vs @ Inl e # rest) = Inl e"
  by (induction vs) simp_all

lemma build_doc_raises:
  "build_dict (doc_items payload now_iso doc_id) = Inl (no_attribute ''EntryCreate'' ''date'')"
proof -
  have "map snd (doc_items payload now_iso doc_id) =
          map Inr [PStr doc_id, PStr ''entry'', PStr (entryType payload),
                   PStr (category payload), PFloat (amount payload),
                   py_or (PStr (currency payload)) (PStr ''PKR''),
                   py_or (PStr (paymentMethod payload)) (PStr ''cash''),
                   opt_str (notes_field payload)]
          @ Inl (no_attribute ''EntryCreate'' ''date'')
          # map snd (drop 9 (doc_items payload now_iso doc_id))"
    by (simp add: doc_items_def EntryCreate_getattr_def ebind_def)
  then show ?thesis
    unfolding build_dict_def by (simp only: sequence_Inl ebind_def sum.case)
qed

lemma create_entry_raises:
  "fst (create_entry env clock rnd payload n) \<noteq> Inr doc"
  by (auto simp: create_entry_def build_doc_raises Let_def split: sum.splits)

lemma create_entry_sends_nothing:
  "snd (create_entry env clock rnd payload n) = n"
  by (auto simp: create_entry_def build_doc_raises Let_def split: sum.splits)




lemma example_short_id: "generate_short_id example_rnd 7 = Inr ''2AJSajt''"
proof -
  have u: "[0 ..< nat 7] = [0, 1, 2, 3, 4, 5, 6]"
    by (simp add: upt_rec)
  show ?thesis
    unfolding generate_short_id_def u
    by (simp add: choice_def example_rnd_def alphabet_def)
qed

lemma example_body_valid:
  "to_float (PFloat 12.5) = Some 12.5 \<Longrightarrow>
   EntryCreate_validate to_float (PDict example_body) = Inr example_payload"
  by (simp add: EntryCreate_validate_def example_body_def example_payload_def ebind_def
      req_literal_def req_str_def req_float_def dflt_str_def optional_str_def
      opt_literal_def optional_meta_def)

lemma float_as_is_example: "float_as_is (PFloat 12.5) = Some 12.5"
  by (simp add: float_as_is_def)

lemma example_now_iso: "isoformat_ms example_clock @ ''Z'' = ''2024-05-01T10:30:00.123Z''"
  by (simp add: isoformat_ms_def example_clock_def zpad_def str_nat.simps digit_char_def)

lemma create_example_payload:
  "create_entry example_env example_clock example_rnd example_payload n
     = (Inl (no_attribute ''EntryCreate'' ''date''), n)"
  by (simp add: create_entry_def example_env_config example_short_id build_doc_raises)

text \<open>
  C1. The example body of the specification is valid for every float validator that
  takes the float 12.5 as it is, and the store is ready to answer 201; the handler
  raises \<open>AttributeError\<close> while it builds the document, before any request is sent:
  \<open>EntryCreate\<close> declares no field \<open>date\<close>.
\<close>

theorem create_entry_example_raises:
  assumes "to_float (PFloat 12.5) = Some 12.5"
  shows
  "EntryCreate_validate to_float (PDict example_body) = Inr example_payload \<and>
   post_entries to_float example_env example_clock example_rnd (PDict example_body)
       \<lparr>answers = [answer 201], sent = []\<rparr>
     = (Inl (AttributeError
              ([CHR 0x27] @ ''EntryCreate'' @ [CHR 0x27] @ '' object has no attribute '' @
               [CHR 0x27] @ ''date'' @ [CHR 0x27])),
        \<lparr>answers = [answer 201], sent = []\<rparr>)"
  by (simp add: post_entries_def example_body_valid [of to_float, OF assms] create_example_payload
      no_attribute_def)

theorem create_entry_example_raises_witness:
  "EntryCreate_validate float_as_is (PDict example_body) = Inr example_payload \<and>
   post_entries float_as_is example_env example_clock example_rnd (PDict example_body)
       \<lparr>answers = [answer 201], sent = []\<rparr>
     = (Inl (AttributeError
              ([CHR 0x27] @ ''EntryCreate'' @ [CHR 0x27] @ '' object has no attribute '' @
               [CHR 0x27] @ ''date'' @ [CHR 0x27])),
        \<lparr>answers = [answer 201], sent = []\<rparr>)"
  using create_entry_example_raises [of float_as_is, OF float_as_is_example] .

text \<open>
  C2. A body that supplies \<open>date\<close> validates to the same payload as the body without it:
  the key is not a field of \<open>EntryCreate\<close> and is dropped. With or without \<open>date\<close>, the
  \<open>createdAt\<close> entry of the document display raises at \<open>payload.date\<close> and the handler
  fails, although the server time it had formatted has the claimed shape.
\<close>

theorem created_at_raises:
  assumes "to_float (PFloat 12.5) = Some 12.5"
  shows
  "EntryCreate_validate to_float
       (PDict (example_body @ [(''date'', PStr ''2024-01-31T08:00:00.000Z'')]))
     = Inr example_payload \<and>
   isoformat_ms example_clock @ ''Z'' = ''2024-05-01T10:30:00.123Z'' \<and>
   map_of (doc_items example_payload ''2024-05-01T10:30:00.123Z'' ''#2AJSajt'') ''createdAt''
     = Some (Inl (no_attribute ''EntryCreate'' ''date'')) \<and>
   fst (post_entries to_float example_env example_clock example_rnd
          (PDict (example_body @ [(''date'', PStr ''2024-01-31T08:00:00.000Z'')]))
          \<lparr>answers = [answer 201], sent = []\<rparr>)
     = Inl (no_attribute ''EntryCreate'' ''date'') \<and>
   fst (post_entries to_float example_env example_clock example_rnd (PDict example_body)
          \<lparr>answers = [answer 201], sent = []\<rparr>)
     = Inl (no_attribute ''EntryCreate'' ''date'')"
proof -
  have v: "EntryCreate_validate to_float
             (PDict (example_body @ [(''date'', PStr ''2024-01-31T08:00:00.000Z'')]))
           = Inr example_payload"
    using assms
    by (simp add: EntryCreate_validate_def example_body_def example_payload_def ebind_def
        req_literal_def req_str_def req_float_def dflt_str_def optional_str_def
        opt_literal_def optional_meta_def)
  have c: "map_of (doc_items example_payload ''2024-05-01T10:30:00.123Z'' ''#2AJSajt'')
             ''createdAt'' = Some (Inl (no_attribute ''EntryCreate'' ''date''))"
    by (simp add: doc_items_def no_date_attribute ebind_def)
  show ?thesis
    using c
    by (simp add: post_entries_def v example_body_valid [of to_float, OF assms] create_example_payload
        example_now_iso)
qed

theorem created_at_raises_witness:
  "EntryCreate_validate float_as_is
       (PDict (example_body @ [(''date'', PStr ''2024-01-31T08:00:00.000Z'')]))
     = Inr example_payload \<and>
   map_of (doc_items example_payload ''2024-05-01T10:30:00.123Z'' ''#2AJSajt'') ''createdAt''
     = Some (Inl (no_attribute ''EntryCreate'' ''date'')) \<and>
   fst (post_entries float_as_is example_env example_clock example_rnd
          (PDict (example_body @ [(''date'', PStr ''2024-01-31T08:00:00.000Z'')]))
          \<lparr>answers = [answer 201], sent = []\<rparr>)
     = Inl (no_attribute ''EntryCreate'' ''date'') \<and>
   fst (post_entries float_as_is example_env example_clock example_rnd (PDict example_body)
          \<lparr>answers = [answer 201], sent = []\<rparr>)
     = Inl (no_attribute ''EntryCreate'' ''date'')"
  using created_at_raises [of float_as_is, OF float_as_is_example] by blast






end
